theory Spec2Isabelle
  imports Main
begin

section \<open>Values of the Go runtime\<close>

text \<open>
  A Go \<open>error\<close> is an interface value; the code under study only creates errors with
  \<open>errors.New\<close>, tests an error against \<open>nil\<close>, reads its message with \<open>Error()\<close> and
  hands it on. \<open>errorString\<close> is the value \<open>errors.New\<close> builds. \<open>ExternalError\<close> stands for
  an error made outside this package (by the GitLab client or by \<open>os/exec\<close>): it carries its
  message and a status code, the latter standing for everything such a value holds that
  its message need not show. A \<open>nil\<close> error is \<open>None\<close> of \<open>error option\<close>.
\<close>

datatype error =
    errorString string
  | ExternalError int string

fun Error :: "error \<Rightarrow> string" where
  "Error (errorString s) = s"
| "Error (ExternalError code msg) = msg"

text \<open>Dereferencing a \<open>nil\<close> pointer panics; a panic is an outcome of its own.\<close>

datatype panic = NilPointerDereference

subsection \<open>Package \<open>strings\<close>\<close>

fun HasPrefix :: "string \<Rightarrow> string \<Rightarrow> bool" where
  "HasPrefix s [] = True"
| "HasPrefix [] (p # ps) = False"
| "HasPrefix (c # cs) (p # ps) = (c = p \<and> HasPrefix cs ps)"

text \<open>\<open>strings.Contains(s, substr)\<close>: \<open>substr\<close> occurs at some offset of \<open>s\<close>.\<close>

fun Contains :: "string \<Rightarrow> string \<Rightarrow> bool" where
  "Contains [] substr = (substr = [])"
| "Contains (c # cs) substr = (HasPrefix (c # cs) substr \<or> Contains cs substr)"

text \<open>\<open>strings.IndexByte\<close>: the offset of the first occurrence, \<open>None\<close> for Go's \<open>-1\<close>.\<close>

fun IndexByte :: "string \<Rightarrow> char \<Rightarrow> nat option" where
  "IndexByte [] c = None"
| "IndexByte (x # xs) c = (if x = c then Some 0 else map_option Suc (IndexByte xs c))"

text \<open>
  \<open>strings.SplitN(s, sep, n)\<close> for a separator of one byte and \<open>n \<ge> 0\<close>: \<open>nil\<close> for
  \<open>n = 0\<close>; otherwise at most \<open>n\<close> pieces, cut at the first \<open>n - 1\<close> separators, the last
  piece being the unsplit remainder.
\<close>

fun SplitN :: "string \<Rightarrow> char \<Rightarrow> nat \<Rightarrow> string list" where
  "SplitN s sep 0 = []"
| "SplitN s sep (Suc 0) = [s]"
| "SplitN s sep (Suc (Suc n)) =
     (case IndexByte s sep of
        None \<Rightarrow> [s]
      | Some m \<Rightarrow> take m s # SplitN (drop (Suc m) s) sep (Suc n))"

section \<open>Data model\<close>

text \<open>
  Modelled from the spec: the structs \<open>Input\<close>, \<open>Output\<close> and \<open>Command\<close> of package \<open>push\<close>
  are declared in a file that is not part of the sources at hand. The fields are those the
  spec lists and \<open>GitlabPush\<close> reads or writes, with the types of the values it assigns.
\<close>

record Input =
  PlanDir :: string
  BranchName :: string
  CommitMessage :: string
  PRBody :: string
  RepoOwner :: string
  RepoName :: string
  PRAssignee :: string

record Output =
  Success :: bool
  CommitSHA :: string
  PullRequestNumber :: int
  PullRequestURL :: string
  PullRequestCombinedStatus :: string
  PullRequestAssignee :: string
  CircleCIBuildURL :: string

record Command =
  Path :: string
  Args :: "string list"

text \<open>
  Modelled from the spec: the types of the GitLab client library, with the fields this
  package touches. A field that the code sets through \<open>&x\<close> or reads through \<open>*p\<close> is a
  pointer, \<open>None\<close> when \<open>nil\<close>; \<open>Pipeline\<close> of a merge request is a pointer as well (a merge
  request without a pipeline has none).
\<close>

record PipelineInfo =
  Ref :: string
  Status :: string

record MergeRequest =
  ID :: int
  Title :: string
  Description :: string
  SHA :: string
  WebURL :: string
  Pipeline :: "PipelineInfo option"

record CreateMergeRequestOptions =
  Title :: "string option"
  Description :: "string option"
  SourceBranch :: "string option"
  TargetBranch :: "string option"

record ListMergeRequestsOptions =
  SourceBranch :: "string option"
  TargetBranch :: "string option"
  State :: "string option"

record UpdateMergeRequestOptions =
  TargetBranch :: "string option"

record ListProjectPipelinesOptions =
  SHA :: "string option"

section \<open>The outside world\<close>

text \<open>
  Everything the package does to the outside is recorded, in order, in a trace: a process
  run in a directory, a receive from one of the two tickers, a call of the GitLab API with
  its arguments.
\<close>

datatype event =
    Exec Command string
  | PushLimiterTick
  | GithubLimiterTick
  | CreateMergeRequestCall string CreateMergeRequestOptions
  | ListMergeRequestsCall ListMergeRequestsOptions
  | UpdateMergeRequestCall string int UpdateMergeRequestOptions
  | ListProjectPipelinesCall string ListProjectPipelinesOptions

text \<open>
  The answers of the outside are arbitrary: each operation answers as a function of the
  trace so far and of its arguments, so the remote state, and whatever changed it between
  two calls, is whatever these functions say. An API operation returns a pair as in Go,
  its result and its error (the \<open>*Response\<close> in between is dropped by every caller here).
\<close>

record client =
  CreateMergeRequest ::
    "event list \<Rightarrow> string \<Rightarrow> CreateMergeRequestOptions \<Rightarrow> MergeRequest option \<times> error option"
  ListMergeRequests ::
    "event list \<Rightarrow> ListMergeRequestsOptions \<Rightarrow> MergeRequest list \<times> error option"
  UpdateMergeRequest ::
    "event list \<Rightarrow> string \<Rightarrow> int \<Rightarrow> UpdateMergeRequestOptions \<Rightarrow> MergeRequest option \<times> error option"
  ListProjectPipelines ::
    "event list \<Rightarrow> string \<Rightarrow> ListProjectPipelinesOptions \<Rightarrow> PipelineInfo list \<times> error option"

text \<open>
  The operating system: \<open>CombinedOutput\<close> runs a command in a directory and returns its
  output and error; \<open>Getenv\<close> reads the environment; \<open>NewClient\<close> is the client that
  \<open>gitlab.NewClient\<close> followed by \<open>SetBaseURL\<close> yields for a token and a base URL
  (\<open>GitlabPush\<close> drops the error \<open>SetBaseURL\<close> returns).
\<close>

record system =
  CombinedOutput :: "event list \<Rightarrow> Command \<Rightarrow> string \<Rightarrow> string \<times> error option"
  Getenv :: "string \<Rightarrow> string"
  NewClient :: "string \<Rightarrow> string \<Rightarrow> client"

section \<open>Pipeline status\<close>

definition GetPipelineStatus ::
  "client \<Rightarrow> string \<Rightarrow> string \<Rightarrow> ListProjectPipelinesOptions \<Rightarrow> event list
    \<Rightarrow> (string \<times> error option) \<times> event list" where
  "GetPipelineStatus c owner name opts tr =
     (let pid = owner @ ''/'' @ name;
          (pipeline, err) = ListProjectPipelines c tr pid opts;
          tr = tr @ [ListProjectPipelinesCall pid opts]
      in if err \<noteq> None then
           (('''', Some (errorString ''unexpected: cannot get pipeline status'')), tr)
         else if length pipeline = 0 then
           ((''No pipeline was found'', None), tr)
         else
           ((Status (pipeline ! 0), None), tr))"

section \<open>Finding or creating the merge request\<close>

text \<open>
  Modelled from the spec: the helper \<open>different\<close> of package \<open>push\<close>, which
  \<open>findOrCreateGitlabMR\<close> calls on two string pointers, is defined in a file that is not
  part of the sources at hand. The spec describes it as pointer/value inequality of the
  existing against the desired text: two \<open>nil\<close> pointers do not differ, a \<open>nil\<close> and a
  non-\<open>nil\<close> pointer do, and two non-\<open>nil\<close> pointers differ when the strings they point to
  are unequal.
\<close>

fun different :: "string option \<Rightarrow> string option \<Rightarrow> bool" where
  "different (Some a) (Some b) = (a \<noteq> b)"
| "different None None = False"
| "different s1 s2 = True"

text \<open>
  The receives \<open><-pushLimiter.C\<close> and \<open><-githubLimiter.C\<close> are recorded in the trace; both
  tickers are taken to be running (a receive from a stopped ticker would block for good).
  \<open>client\<close> and \<open>pull\<close> are the non-\<open>nil\<close> pointers the one caller passes. The assignments
  to \<open>pr.Title\<close> and \<open>pr.Description\<close> dereference the desired title and description, and
  change an object that nothing reads afterwards: \<open>pr\<close> is next overwritten by the answer
  of the update call.
\<close>

definition findOrCreateGitlabMR ::
  "client \<Rightarrow> string \<Rightarrow> string \<Rightarrow> CreateMergeRequestOptions \<Rightarrow> event list
    \<Rightarrow> (panic + MergeRequest option \<times> error option) \<times> event list" where
  "findOrCreateGitlabMR c owner name pull tr =
     (let prStatus = ''opened'';
          tr = tr @ [PushLimiterTick];
          tr = tr @ [GithubLimiterTick];
          pid = owner @ ''/'' @ name;
          (newMR, err) = CreateMergeRequest c tr pid pull;
          tr = tr @ [CreateMergeRequestCall pid pull]
      in case err of
           None \<Rightarrow> (Inr (newMR, None), tr)
         | Some e \<Rightarrow>
             if Contains (Error e) ''merge request already exists'' then
               (let tr = tr @ [GithubLimiterTick];
                    lopts = \<lparr>ListMergeRequestsOptions.SourceBranch =
                               CreateMergeRequestOptions.SourceBranch pull,
                             ListMergeRequestsOptions.TargetBranch =
                               CreateMergeRequestOptions.TargetBranch pull,
                             State = Some prStatus\<rparr>;
                    (existingMRs, err) = ListMergeRequests c tr lopts;
                    tr = tr @ [ListMergeRequestsCall lopts]
                in if err \<noteq> None then (Inr (None, err), tr)
                   else if length existingMRs \<noteq> 1 then
                     (Inr (None, Some (errorString ''unexpected: found more than 1 MR for branch'')), tr)
                   else
                     (let pr = existingMRs ! 0
                      in if different (Some (MergeRequest.Title pr)) (CreateMergeRequestOptions.Title pull)
                            \<or> different (Some (MergeRequest.Description pr))
                                 (CreateMergeRequestOptions.Description pull) then
                           (case CreateMergeRequestOptions.Title pull of
                              None \<Rightarrow> (Inl NilPointerDereference, tr)
                            | Some title \<Rightarrow>
                                (case CreateMergeRequestOptions.Description pull of
                                   None \<Rightarrow> (Inl NilPointerDereference, tr)
                                 | Some description \<Rightarrow>
                                     (let pr = pr\<lparr>MergeRequest.Title := title,
                                                 MergeRequest.Description := description\<rparr>;
                                          tr = tr @ [GithubLimiterTick];
                                          uopts = \<lparr>UpdateMergeRequestOptions.TargetBranch =
                                                     CreateMergeRequestOptions.TargetBranch pull\<rparr>;
                                          (pr, err) = UpdateMergeRequest c tr pid
                                                        (ID (existingMRs ! 0)) uopts;
                                          tr = tr @ [UpdateMergeRequestCall pid (ID (existingMRs ! 0)) uopts]
                                      in if err \<noteq> None then (Inr (None, err), tr)
                                         else (Inr (pr, None), tr))))
                         else (Inr (Some pr, None), tr)))
             else (Inr (None, Some e), tr))"

section \<open>Pushing\<close>

text \<open>
  The title and the description of the merge request, as \<open>GitlabPush\<close> derives them from
  its input before it calls \<open>findOrCreateGitlabMR\<close> (the block from \<open>title :=\<close> to the end of
  the \<open>if\<close> on the length of \<open>splitMsg\<close>).
\<close>

definition titleAndBody :: "Input \<Rightarrow> string \<times> string" where
  "titleAndBody input =
     (let title = CommitMessage input;
          body = '''';
          splitMsg = SplitN (CommitMessage input) CHR 0x0A 2
      in if length splitMsg = 2 then
           (let title = splitMsg ! 0
            in if PRBody input = '''' then (title, splitMsg ! 1) else (title, body))
         else (title, body))"

text \<open>
  The composite literal \<open>Output{Success: false}\<close>: a field that is not named has the zero
  value of its type.
\<close>

definition failedOutput :: Output where
  "failedOutput =
     \<lparr>Success = False, CommitSHA = '''', PullRequestNumber = 0, PullRequestURL = '''',
      PullRequestCombinedStatus = '''', PullRequestAssignee = '''', CircleCIBuildURL = ''''\<rparr>"

text \<open>
  \<open>pr.SHA\<close> dereferences the merge request the reconciler returned and \<open>pr.Pipeline.Ref\<close>
  its pipeline: either panics on \<open>nil\<close>. The context only reaches the two \<open>git\<close> processes,
  whose cancellation shows as their error.
\<close>

definition GitlabPush ::
  "system \<Rightarrow> Input \<Rightarrow> event list \<Rightarrow> (panic + Output \<times> error option) \<times> event list" where
  "GitlabPush sys input tr =
     (let cmd = \<lparr>Path = ''git'', Args = [''log'', ''-1'', ''--pretty=format:%H'']\<rparr>;
          (gitLogOutput, err) = CombinedOutput sys tr cmd (PlanDir input);
          tr = tr @ [Exec cmd (PlanDir input)]
      in if err \<noteq> None then (Inr (failedOutput, Some (errorString gitLogOutput)), tr)
         else
          (let gitHeadBranch = ''HEAD:'' @ BranchName input;
               cmd = \<lparr>Path = ''git'', Args = [''push'', ''-f'', ''origin'', gitHeadBranch]\<rparr>;
               (output, err) = CombinedOutput sys tr cmd (PlanDir input);
               tr = tr @ [Exec cmd (PlanDir input)]
           in if err \<noteq> None then (Inr (failedOutput, Some (errorString output)), tr)
              else
               (let c = NewClient sys (Getenv sys ''GITLAB_API_TOKEN'') (Getenv sys ''GITLAB_URL'');
                    head = BranchName input;
                    base = ''master'';
                    (title, body) = titleAndBody input;
                    (r, tr) = findOrCreateGitlabMR c (RepoOwner input) (RepoName input)
                                \<lparr>CreateMergeRequestOptions.Title = Some title,
                                 CreateMergeRequestOptions.Description = Some body,
                                 CreateMergeRequestOptions.SourceBranch = Some head,
                                 CreateMergeRequestOptions.TargetBranch = Some base\<rparr> tr
                in case r of
                     Inl p \<Rightarrow> (Inl p, tr)
                   | Inr (pr, err) \<Rightarrow>
                       if err \<noteq> None then (Inr (failedOutput, err), tr)
                       else
                        (case pr of
                           None \<Rightarrow> (Inl NilPointerDereference, tr)
                         | Some pr \<Rightarrow>
                            (let ((pipelineStatus, err), tr) =
                                   GetPipelineStatus c (RepoOwner input) (RepoName input)
                                     \<lparr>SHA = Some (MergeRequest.SHA pr)\<rparr> tr
                             in if err \<noteq> None then (Inr (failedOutput, err), tr)
                                else
                                 (case Pipeline pr of
                                    None \<Rightarrow> (Inl NilPointerDereference, tr)
                                  | Some pipeline \<Rightarrow>
                                     (Inr (\<lparr>Success = True,
                                            CommitSHA = MergeRequest.SHA pr,
                                            PullRequestNumber = ID pr,
                                            PullRequestURL = WebURL pr,
                                            PullRequestCombinedStatus = pipelineStatus,
                                            PullRequestAssignee = PRAssignee input,
                                            CircleCIBuildURL = Ref pipeline\<rparr>, None), tr)))))))"

section \<open>Names for what the code passes on\<close>

text \<open>
  The theorems below have to speak of the arguments that the functions above build on their
  way. \<open>listOptions\<close> is the filter \<open>findOrCreateGitlabMR\<close> lists merge requests with,
  \<open>gitLogCmd\<close> and \<open>gitPushCmd\<close> are the two commands of \<open>GitlabPush\<close>, \<open>mrOptions\<close> is the
  merge request it asks for.
\<close>

definition listOptions :: "CreateMergeRequestOptions \<Rightarrow> ListMergeRequestsOptions" where
  "listOptions pull =
     \<lparr>ListMergeRequestsOptions.SourceBranch = CreateMergeRequestOptions.SourceBranch pull,
      ListMergeRequestsOptions.TargetBranch = CreateMergeRequestOptions.TargetBranch pull,
      State = Some ''opened''\<rparr>"

definition gitLogCmd :: Command where
  "gitLogCmd = \<lparr>Path = ''git'', Args = [''log'', ''-1'', ''--pretty=format:%H'']\<rparr>"

definition gitPushCmd :: "Input \<Rightarrow> Command" where
  "gitPushCmd input =
     \<lparr>Path = ''git'', Args = [''push'', ''-f'', ''origin'', ''HEAD:'' @ BranchName input]\<rparr>"

definition mrOptions :: "Input \<Rightarrow> CreateMergeRequestOptions" where
  "mrOptions input =
     \<lparr>CreateMergeRequestOptions.Title = Some (fst (titleAndBody input)),
      CreateMergeRequestOptions.Description = Some (snd (titleAndBody input)),
      CreateMergeRequestOptions.SourceBranch = Some (BranchName input),
      CreateMergeRequestOptions.TargetBranch = Some ''master''\<rparr>"

text \<open>
  A run that is throttled as the spec asks consumes one permit of the shared limiter right
  before each API call and no other: \<open>throttled calls\<close> is that trace for a list of calls.
\<close>

definition throttled :: "event list \<Rightarrow> event list" where
  "throttled calls = concat (map (\<lambda>call. [GithubLimiterTick, call]) calls)"

section \<open>Fixtures\<close>

text \<open>
  A client whose four operations give fixed answers whatever they are asked, and a system
  whose \<open>git log\<close> and \<open>git push\<close> give fixed answers and whose client is a given one,
  for running the definitions on concrete inputs.
\<close>

definition constClient ::
  "MergeRequest option \<times> error option \<Rightarrow> MergeRequest list \<times> error option
    \<Rightarrow> MergeRequest option \<times> error option \<Rightarrow> PipelineInfo list \<times> error option \<Rightarrow> client" where
  "constClient cr li up pl =
     \<lparr>CreateMergeRequest = (\<lambda>tr pid opts. cr),
      ListMergeRequests = (\<lambda>tr opts. li),
      UpdateMergeRequest = (\<lambda>tr pid n opts. up),
      ListProjectPipelines = (\<lambda>tr pid opts. pl)\<rparr>"

definition constSystem :: "string \<times> error option \<Rightarrow> string \<times> error option \<Rightarrow> client \<Rightarrow> system" where
  "constSystem gitLog gitPush c =
     \<lparr>CombinedOutput = (\<lambda>tr cmd dir. if take 1 (Args cmd) = [''log''] then gitLog else gitPush),
      Getenv = (\<lambda>var. ''''),
      NewClient = (\<lambda>token url. c)\<rparr>"

text \<open>
  The input of the spec's example, the error GitLab answers when the source branch has an
  open merge request already, and a merge request with a pipeline.
\<close>

definition exInput :: Input where
  "exInput =
     \<lparr>PlanDir = ''/tmp/plan'', BranchName = ''fix-1'',
      CommitMessage = ''Fix bug\<newline>\<newline>Details here'', PRBody = '''',
      RepoOwner = ''o'', RepoName = ''r'', PRAssignee = ''alice''\<rparr>"

definition conflict :: error where
  "conflict =
     ExternalError 409 ''Another open merge request already exists for this source branch: !7''"

definition exMR :: MergeRequest where
  "exMR =
     \<lparr>ID = 7, Title = ''Fix bug'', Description = ''\<newline>Details here'', SHA = ''abc123'',
      WebURL = ''https://gitlab.example/o/r/merge_requests/7'',
      Pipeline = Some \<lparr>Ref = ''fix-1'', Status = ''running''\<rparr>\<rparr>"

definition exPull :: CreateMergeRequestOptions where
  "exPull =
     \<lparr>CreateMergeRequestOptions.Title = Some ''Fix bug'',
      CreateMergeRequestOptions.Description = Some ''\<newline>Details here'',
      CreateMergeRequestOptions.SourceBranch = Some ''fix-1'',
      CreateMergeRequestOptions.TargetBranch = Some ''master''\<rparr>"

section \<open>Properties of the string functions\<close>

lemma HasPrefix_iff: "HasPrefix s p \<longleftrightarrow> (\<exists>q. s = p @ q)"
  by (induction s p rule: HasPrefix.induct) auto

lemma Contains_iff: "Contains s substr \<longleftrightarrow> (\<exists>p q. s = p @ substr @ q)"
proof (induction s)
  case Nil
  then show ?case by auto
next
  case (Cons c cs)
  show ?case
  proof
    assume "Contains (c # cs) substr"
    then consider "HasPrefix (c # cs) substr" | "Contains cs substr" by auto
    then show "\<exists>p q. c # cs = p @ substr @ q"
    proof cases
      case 1
      then obtain q where "c # cs = substr @ q" by (auto simp: HasPrefix_iff)
      then have "c # cs = [] @ substr @ q" by simp
      then show ?thesis by blast
    next
      case 2
      then obtain p q where "cs = p @ substr @ q" using Cons.IH by blast
      then have "c # cs = (c # p) @ substr @ q" by simp
      then show ?thesis by blast
    qed
  next
    assume "\<exists>p q. c # cs = p @ substr @ q"
    then obtain p q where pq: "c # cs = p @ substr @ q" by blast
    show "Contains (c # cs) substr"
    proof (cases p)
      case Nil
      with pq have "HasPrefix (c # cs) substr" by (auto simp: HasPrefix_iff)
      then show ?thesis by simp
    next
      case (Cons a p')
      with pq have "cs = p' @ substr @ q" by simp
      then have "Contains cs substr" using Cons.IH by blast
      then show ?thesis by simp
    qed
  qed
qed

lemma IndexByte_None: "c \<notin> set s \<Longrightarrow> IndexByte s c = None"
  by (induction s) auto

lemma IndexByte_first: "c \<notin> set a \<Longrightarrow> IndexByte (a @ c # b) c = Some (length a)"
  by (induction a) auto

lemma SplitN_2:
  "SplitN s sep 2 =
     (case IndexByte s sep of None \<Rightarrow> [s] | Some m \<Rightarrow> [take m s, drop (Suc m) s])"
  by (simp add: numeral_2_eq_2 split: option.splits)

section \<open>Properties of \<open>GetPipelineStatus\<close>\<close>

lemma GetPipelineStatus_trace:
  "snd (GetPipelineStatus c owner name opts tr) =
     tr @ [ListProjectPipelinesCall (owner @ ''/'' @ name) opts]"
  by (simp add: GetPipelineStatus_def Let_def split: prod.splits)

lemma GetPipelineStatus_fst:
  "fst (GetPipelineStatus c owner name opts tr) =
     (case ListProjectPipelines c tr (owner @ ''/'' @ name) opts of
        (pipeline, err) \<Rightarrow>
          (case err of
             Some e \<Rightarrow> ('''', Some (errorString ''unexpected: cannot get pipeline status''))
           | None \<Rightarrow>
               (case pipeline of
                  [] \<Rightarrow> (''No pipeline was found'', None)
                | p # ps \<Rightarrow> (Status p, None))))"
  by (simp add: GetPipelineStatus_def Let_def split: prod.splits option.splits list.splits)

text \<open>
  Claim C4. \<open>GetPipelineStatus\<close> returns \<open>("No pipeline was found", nil)\<close> whenever the
  list call succeeds with an empty list, the status of the first pipeline of the list and
  a \<open>nil\<close> error whenever it succeeds with a non-empty list, and the error
  "unexpected: cannot get pipeline status" whenever the list call fails.
\<close>

theorem GetPipelineStatus_result:
  "(ListProjectPipelines c tr (owner @ ''/'' @ name) opts = ([], None) \<longrightarrow>
      fst (GetPipelineStatus c owner name opts tr) = (''No pipeline was found'', None)) \<and>
   (ListProjectPipelines c tr (owner @ ''/'' @ name) opts = (p # ps, None) \<longrightarrow>
      fst (GetPipelineStatus c owner name opts tr) = (Status p, None)) \<and>
   (snd (ListProjectPipelines c tr (owner @ ''/'' @ name) opts) = Some e \<longrightarrow>
      snd (fst (GetPipelineStatus c owner name opts tr)) =
        Some (errorString ''unexpected: cannot get pipeline status''))"
  by (auto simp: GetPipelineStatus_fst split: prod.splits)

theorem GetPipelineStatus_result_witness:
  "fst (GetPipelineStatus (constClient (None, None) ([], None) (None, None) ([], None))
      ''o'' ''r'' \<lparr>SHA = Some ''abc''\<rparr> []) = (''No pipeline was found'', None) \<and>
   fst (GetPipelineStatus (constClient (None, None) ([], None) (None, None)
        ([\<lparr>Ref = ''b'', Status = ''running''\<rparr>, \<lparr>Ref = ''b'', Status = ''failed''\<rparr>], None))
      ''o'' ''r'' \<lparr>SHA = Some ''abc''\<rparr> []) = (''running'', None) \<and>
   snd (fst (GetPipelineStatus (constClient (None, None) ([], None) (None, None)
        ([], Some (ExternalError 500 ''boom'')))
      ''o'' ''r'' \<lparr>SHA = Some ''abc''\<rparr> [])) =
     Some (errorString ''unexpected: cannot get pipeline status'')"
  using
    GetPipelineStatus_result [of "constClient (None, None) ([], None) (None, None) ([], None)"
      "[]" "''o''" "''r''" "\<lparr>SHA = Some ''abc''\<rparr>"]
    GetPipelineStatus_result [of "constClient (None, None) ([], None) (None, None)
        ([\<lparr>Ref = ''b'', Status = ''running''\<rparr>, \<lparr>Ref = ''b'', Status = ''failed''\<rparr>], None)"
      "[]" "''o''" "''r''" "\<lparr>SHA = Some ''abc''\<rparr>" "\<lparr>Ref = ''b'', Status = ''running''\<rparr>"
      "[\<lparr>Ref = ''b'', Status = ''failed''\<rparr>]"]
    GetPipelineStatus_result [of "constClient (None, None) ([], None) (None, None)
        ([], Some (ExternalError 500 ''boom''))"
      "[]" "''o''" "''r''" "\<lparr>SHA = Some ''abc''\<rparr>" _ _ "ExternalError 500 ''boom''"]
  by (simp add: constClient_def)

text \<open>
  Claim C10. When the list call fails, the underlying error is dropped: the status is the
  empty string and the error is the fixed "unexpected: cannot get pipeline status", the
  same whatever the failure was and whatever else the call returned.
\<close>

theorem GetPipelineStatus_discards_error:
  "snd (ListProjectPipelines c tr (owner @ ''/'' @ name) opts) = Some e \<Longrightarrow>
   snd (ListProjectPipelines c' tr' (owner' @ ''/'' @ name') opts') = Some e' \<Longrightarrow>
   fst (GetPipelineStatus c owner name opts tr) =
     ('''', Some (errorString ''unexpected: cannot get pipeline status'')) \<and>
   fst (GetPipelineStatus c' owner' name' opts' tr') = fst (GetPipelineStatus c owner name opts tr)"
  by (auto simp: GetPipelineStatus_fst split: prod.splits)

theorem GetPipelineStatus_discards_error_witness:
  "fst (GetPipelineStatus (constClient (None, None) ([], None) (None, None)
        ([], Some (ExternalError 500 ''boom''))) ''o'' ''r'' \<lparr>SHA = Some ''abc''\<rparr> []) =
     ('''', Some (errorString ''unexpected: cannot get pipeline status'')) \<and>
   fst (GetPipelineStatus (constClient (None, None) ([], None) (None, None)
        ([\<lparr>Ref = ''b'', Status = ''running''\<rparr>], Some (errorString ''timeout'')))
        ''o'' ''r'' \<lparr>SHA = None\<rparr> []) =
   fst (GetPipelineStatus (constClient (None, None) ([], None) (None, None)
        ([], Some (ExternalError 500 ''boom''))) ''o'' ''r'' \<lparr>SHA = Some ''abc''\<rparr> [])"
  using GetPipelineStatus_discards_error
    [of "constClient (None, None) ([], None) (None, None) ([], Some (ExternalError 500 ''boom''))"
      "[]" "''o''" "''r''" "\<lparr>SHA = Some ''abc''\<rparr>" "ExternalError 500 ''boom''"
      "constClient (None, None) ([], None) (None, None)
        ([\<lparr>Ref = ''b'', Status = ''running''\<rparr>], Some (errorString ''timeout''))"
      "[]" "''o''" "''r''" "\<lparr>SHA = None\<rparr>" "errorString ''timeout''"]
  by (simp add: constClient_def)

section \<open>Properties of \<open>findOrCreateGitlabMR\<close>\<close>

lemma length_1_conv: "length xs = Suc 0 \<longleftrightarrow> (\<exists>x. xs = [x])"
  by (cases xs) auto

lemma findOrCreateGitlabMR_trace:
  "snd (findOrCreateGitlabMR c owner name pull tr) =
     tr @ PushLimiterTick # throttled
       (CreateMergeRequestCall (owner @ ''/'' @ name) pull #
        (case snd (CreateMergeRequest c (tr @ [PushLimiterTick, GithubLimiterTick])
                     (owner @ ''/'' @ name) pull) of
           None \<Rightarrow> []
         | Some e \<Rightarrow>
             if Contains (Error e) ''merge request already exists'' then
               ListMergeRequestsCall (listOptions pull) #
               (case ListMergeRequests c (tr @ [PushLimiterTick, GithubLimiterTick,
                        CreateMergeRequestCall (owner @ ''/'' @ name) pull, GithubLimiterTick])
                       (listOptions pull) of
                  (mrs, err) \<Rightarrow>
                    (case err of
                       Some e' \<Rightarrow> []
                     | None \<Rightarrow>
                         (case mrs of
                            [mr] \<Rightarrow>
                              (case (CreateMergeRequestOptions.Title pull,
                                     CreateMergeRequestOptions.Description pull) of
                                 (Some t, Some d) \<Rightarrow>
                                   if MergeRequest.Title mr \<noteq> t \<or> MergeRequest.Description mr \<noteq> d
                                   then [UpdateMergeRequestCall (owner @ ''/'' @ name) (ID mr)
                                          \<lparr>UpdateMergeRequestOptions.TargetBranch =
                                             CreateMergeRequestOptions.TargetBranch pull\<rparr>]
                                   else []
                               | _ \<Rightarrow> [])
                          | _ \<Rightarrow> [])))
             else []))"
  by (auto simp add: findOrCreateGitlabMR_def Let_def listOptions_def throttled_def length_1_conv
      split: prod.splits option.splits list.splits)

text \<open>
  Claim C1. After a create attempt that fails with a message containing "merge request
  already exists", and a list call that succeeds: if the list holds exactly one merge
  request whose title or description differs from the desired one, an update call is
  issued; if it holds none or more than one, the function returns the error "unexpected:
  found more than 1 MR for branch" and the trace ends with the list call, so no update call
  is made. The desired title and description are the strings the two pointers of \<open>pull\<close>
  point to.
\<close>

theorem findOrCreateGitlabMR_conflict:
  assumes "CreateMergeRequest c (tr @ [PushLimiterTick, GithubLimiterTick]) (owner @ ''/'' @ name) pull
             = (newMR, Some e)"
    and "Contains (Error e) ''merge request already exists''"
    and "ListMergeRequests c (tr @ [PushLimiterTick, GithubLimiterTick,
             CreateMergeRequestCall (owner @ ''/'' @ name) pull, GithubLimiterTick]) (listOptions pull)
             = (mrs, None)"
  shows "(mrs = [mr] \<and> CreateMergeRequestOptions.Title pull = Some t \<and>
          CreateMergeRequestOptions.Description pull = Some d \<and>
          (MergeRequest.Title mr \<noteq> t \<or> MergeRequest.Description mr \<noteq> d) \<longrightarrow>
            snd (findOrCreateGitlabMR c owner name pull tr) =
              tr @ [PushLimiterTick, GithubLimiterTick,
                    CreateMergeRequestCall (owner @ ''/'' @ name) pull, GithubLimiterTick,
                    ListMergeRequestsCall (listOptions pull), GithubLimiterTick,
                    UpdateMergeRequestCall (owner @ ''/'' @ name) (ID mr)
                      \<lparr>UpdateMergeRequestOptions.TargetBranch =
                         CreateMergeRequestOptions.TargetBranch pull\<rparr>]) \<and>
         (length mrs \<noteq> 1 \<longrightarrow>
            findOrCreateGitlabMR c owner name pull tr =
              (Inr (None, Some (errorString ''unexpected: found more than 1 MR for branch'')),
               tr @ [PushLimiterTick, GithubLimiterTick,
                     CreateMergeRequestCall (owner @ ''/'' @ name) pull, GithubLimiterTick,
                     ListMergeRequestsCall (listOptions pull)]))"
  using assms
  by (auto simp add: findOrCreateGitlabMR_def Let_def listOptions_def split: prod.splits)

theorem findOrCreateGitlabMR_conflict_witness:
  "snd (findOrCreateGitlabMR
          (constClient (None, Some conflict) ([exMR\<lparr>MergeRequest.Title := ''Old title''\<rparr>], None)
             (Some exMR, None) ([], None))
          ''o'' ''r'' exPull []) =
     [PushLimiterTick, GithubLimiterTick, CreateMergeRequestCall ''o/r'' exPull, GithubLimiterTick,
      ListMergeRequestsCall (listOptions exPull), GithubLimiterTick,
      UpdateMergeRequestCall ''o/r'' 7 \<lparr>UpdateMergeRequestOptions.TargetBranch = Some ''master''\<rparr>] \<and>
   findOrCreateGitlabMR
     (constClient (None, Some conflict) ([], None) (Some exMR, None) ([], None))
     ''o'' ''r'' exPull [] =
     (Inr (None, Some (errorString ''unexpected: found more than 1 MR for branch'')),
      [PushLimiterTick, GithubLimiterTick, CreateMergeRequestCall ''o/r'' exPull, GithubLimiterTick,
       ListMergeRequestsCall (listOptions exPull)]) \<and>
   findOrCreateGitlabMR
     (constClient (None, Some conflict) ([exMR, exMR\<lparr>ID := 8\<rparr>], None) (Some exMR, None) ([], None))
     ''o'' ''r'' exPull [] =
     (Inr (None, Some (errorString ''unexpected: found more than 1 MR for branch'')),
      [PushLimiterTick, GithubLimiterTick, CreateMergeRequestCall ''o/r'' exPull, GithubLimiterTick,
       ListMergeRequestsCall (listOptions exPull)])"
proof -
  let ?one = "constClient (None, Some conflict) ([exMR\<lparr>MergeRequest.Title := ''Old title''\<rparr>], None)
                (Some exMR, None) ([], None)"
  let ?zero = "constClient (None, Some conflict) ([], None) (Some exMR, None) ([], None)"
  let ?two = "constClient (None, Some conflict) ([exMR, exMR\<lparr>ID := 8\<rparr>], None)
                (Some exMR, None) ([], None)"
  have ex: "Contains (Error conflict) ''merge request already exists''"
    by (simp add: conflict_def)
  have c1: "CreateMergeRequest ?one ([] @ [PushLimiterTick, GithubLimiterTick]) (''o'' @ ''/'' @ ''r'')
              exPull = (None, Some conflict)"
    and c0: "CreateMergeRequest ?zero ([] @ [PushLimiterTick, GithubLimiterTick]) (''o'' @ ''/'' @ ''r'')
              exPull = (None, Some conflict)"
    and c2: "CreateMergeRequest ?two ([] @ [PushLimiterTick, GithubLimiterTick]) (''o'' @ ''/'' @ ''r'')
              exPull = (None, Some conflict)"
    by (simp_all add: constClient_def)
  have l1: "ListMergeRequests ?one ([] @ [PushLimiterTick, GithubLimiterTick,
              CreateMergeRequestCall (''o'' @ ''/'' @ ''r'') exPull, GithubLimiterTick])
              (listOptions exPull) = ([exMR\<lparr>MergeRequest.Title := ''Old title''\<rparr>], None)"
    and l0: "ListMergeRequests ?zero ([] @ [PushLimiterTick, GithubLimiterTick,
              CreateMergeRequestCall (''o'' @ ''/'' @ ''r'') exPull, GithubLimiterTick])
              (listOptions exPull) = ([], None)"
    and l2: "ListMergeRequests ?two ([] @ [PushLimiterTick, GithubLimiterTick,
              CreateMergeRequestCall (''o'' @ ''/'' @ ''r'') exPull, GithubLimiterTick])
              (listOptions exPull) = ([exMR, exMR\<lparr>ID := 8\<rparr>], None)"
    by (simp_all add: constClient_def)
  from findOrCreateGitlabMR_conflict [OF c1 ex l1,
      of "exMR\<lparr>MergeRequest.Title := ''Old title''\<rparr>" "''Fix bug''" "''\<newline>Details here''"]
    findOrCreateGitlabMR_conflict [OF c0 ex l0]
    findOrCreateGitlabMR_conflict [OF c2 ex l2]
  show ?thesis
    by (simp add: exMR_def exPull_def)
qed

text \<open>
  Claim C2. When the create call fails with an error whose message does not contain "merge
  request already exists", the function returns that very error, and the create call is
  the last event of the trace: there is no list call and no update call.
\<close>

theorem findOrCreateGitlabMR_other_failure:
  "CreateMergeRequest c (tr @ [PushLimiterTick, GithubLimiterTick]) (owner @ ''/'' @ name) pull
     = (newMR, Some e) \<Longrightarrow>
   \<not> Contains (Error e) ''merge request already exists'' \<Longrightarrow>
   findOrCreateGitlabMR c owner name pull tr =
     (Inr (None, Some e),
      tr @ [PushLimiterTick, GithubLimiterTick, CreateMergeRequestCall (owner @ ''/'' @ name) pull])"
  by (simp add: findOrCreateGitlabMR_def Let_def)

theorem findOrCreateGitlabMR_other_failure_witness:
  "findOrCreateGitlabMR
     (constClient (None, Some (ExternalError 403 ''403 Forbidden'')) ([exMR], None) (Some exMR, None)
        ([], None))
     ''o'' ''r'' exPull [] =
     (Inr (None, Some (ExternalError 403 ''403 Forbidden'')),
      [PushLimiterTick, GithubLimiterTick, CreateMergeRequestCall ''o/r'' exPull])"
proof -
  let ?c = "constClient (None, Some (ExternalError 403 ''403 Forbidden'')) ([exMR], None)
              (Some exMR, None) ([], None)"
  have c: "CreateMergeRequest ?c ([] @ [PushLimiterTick, GithubLimiterTick]) (''o'' @ ''/'' @ ''r'')
             exPull = (None, Some (ExternalError 403 ''403 Forbidden''))"
    by (simp add: constClient_def)
  have n: "\<not> Contains (Error (ExternalError 403 ''403 Forbidden'')) ''merge request already exists''"
    by simp
  from findOrCreateGitlabMR_other_failure [OF c n] show ?thesis by simp
qed

text \<open>
  Claim C3. Let \<open>tr1\<close> be the trace a first invocation has left. If what the remote lists
  as open merge requests for the branch during the second invocation carries the desired
  title and description, the second invocation makes no update call.
\<close>

theorem findOrCreateGitlabMR_second_run:
  assumes "tr1 = snd (findOrCreateGitlabMR c owner name pull tr)"
    and "\<forall>mr \<in> set (fst (ListMergeRequests c (tr1 @ [PushLimiterTick, GithubLimiterTick,
             CreateMergeRequestCall (owner @ ''/'' @ name) pull, GithubLimiterTick]) (listOptions pull))).
           Some (MergeRequest.Title mr) = CreateMergeRequestOptions.Title pull \<and>
           Some (MergeRequest.Description mr) = CreateMergeRequestOptions.Description pull"
  shows "\<forall>pid n uopts. UpdateMergeRequestCall pid n uopts \<notin>
           set (drop (length tr1) (snd (findOrCreateGitlabMR c owner name pull tr1)))"
proof -
  let ?pid = "owner @ ''/'' @ name"
  let ?t = "tr1 @ [PushLimiterTick, GithubLimiterTick, CreateMergeRequestCall ?pid pull,
                   GithubLimiterTick]"
  obtain mrs err where L: "ListMergeRequests c ?t (listOptions pull) = (mrs, err)"
    by (cases "ListMergeRequests c ?t (listOptions pull)")
  have same: "Some (MergeRequest.Title mr) = CreateMergeRequestOptions.Title pull \<and>
              Some (MergeRequest.Description mr) = CreateMergeRequestOptions.Description pull"
    if "mrs = [mr]" for mr
    using assms(2) L that by simp
  show ?thesis
  proof (cases "\<exists>mr. mrs = [mr]")
    case True
    then obtain mr where mr: "mrs = [mr]" by blast
    from same [OF mr] obtain t d where
      "CreateMergeRequestOptions.Title pull = Some t" "MergeRequest.Title mr = t"
      "CreateMergeRequestOptions.Description pull = Some d" "MergeRequest.Description mr = d"
      by metis
    with L mr show ?thesis
      by (simp add: findOrCreateGitlabMR_trace [of c owner name pull tr1] throttled_def
          split: option.splits)
  next
    case False
    with L show ?thesis
      by (auto simp add: findOrCreateGitlabMR_trace [of c owner name pull tr1] throttled_def
          split: option.splits list.splits)
  qed
qed

theorem findOrCreateGitlabMR_second_run_witness:
  "drop 5 (snd (findOrCreateGitlabMR
       (constClient (None, Some conflict) ([exMR], None) (Some exMR, None) ([], None))
       ''o'' ''r'' exPull
       [PushLimiterTick, GithubLimiterTick, CreateMergeRequestCall ''o/r'' exPull, GithubLimiterTick,
        ListMergeRequestsCall (listOptions exPull)])) =
     [PushLimiterTick, GithubLimiterTick, CreateMergeRequestCall ''o/r'' exPull, GithubLimiterTick,
      ListMergeRequestsCall (listOptions exPull)] \<and>
   (\<forall>pid n uopts. UpdateMergeRequestCall pid n uopts \<notin>
      set (drop 5 (snd (findOrCreateGitlabMR
        (constClient (None, Some conflict) ([exMR], None) (Some exMR, None) ([], None))
        ''o'' ''r'' exPull
        [PushLimiterTick, GithubLimiterTick, CreateMergeRequestCall ''o/r'' exPull, GithubLimiterTick,
         ListMergeRequestsCall (listOptions exPull)]))))"
proof -
  let ?c = "constClient (None, Some conflict) ([exMR], None) (Some exMR, None) ([], None)"
  let ?tr1 = "[PushLimiterTick, GithubLimiterTick, CreateMergeRequestCall ''o/r'' exPull,
               GithubLimiterTick, ListMergeRequestsCall (listOptions exPull)]"
  have ex: "Contains (Error conflict) ''merge request already exists''"
    by (simp add: conflict_def)
  have run: "snd (findOrCreateGitlabMR ?c ''o'' ''r'' exPull tr) = tr @ ?tr1" for tr
    using ex by (simp add: findOrCreateGitlabMR_def Let_def constClient_def listOptions_def
        exMR_def exPull_def)
  have first: "?tr1 = snd (findOrCreateGitlabMR ?c ''o'' ''r'' exPull [])"
    using run [of "[]"] by simp
  have listed: "\<forall>mr \<in> set (fst (ListMergeRequests ?c (?tr1 @ [PushLimiterTick, GithubLimiterTick,
             CreateMergeRequestCall (''o'' @ ''/'' @ ''r'') exPull, GithubLimiterTick])
             (listOptions exPull))).
           Some (MergeRequest.Title mr) = CreateMergeRequestOptions.Title exPull \<and>
           Some (MergeRequest.Description mr) = CreateMergeRequestOptions.Description exPull"
    by (simp add: constClient_def exMR_def exPull_def)
  from findOrCreateGitlabMR_second_run [OF first listed] run [of ?tr1]
  show ?thesis by simp
qed

text \<open>
  Claim C8. The events of an invocation are one permit of the push limiter, followed by
  the API calls in order, each with exactly one permit of the shared limiter right before
  it, and nothing else. The calls are the create call alone, or the create call and the
  list call, or these two and one update call; the list call is there exactly on the
  "merge request already exists" path.
\<close>

theorem findOrCreateGitlabMR_permits:
  "\<exists>calls. snd (findOrCreateGitlabMR c owner name pull tr) = tr @ PushLimiterTick # throttled calls \<and>
     (calls = [CreateMergeRequestCall (owner @ ''/'' @ name) pull] \<or>
      calls = [CreateMergeRequestCall (owner @ ''/'' @ name) pull,
               ListMergeRequestsCall (listOptions pull)] \<or>
      (\<exists>n. calls = [CreateMergeRequestCall (owner @ ''/'' @ name) pull,
               ListMergeRequestsCall (listOptions pull),
               UpdateMergeRequestCall (owner @ ''/'' @ name) n
                 \<lparr>UpdateMergeRequestOptions.TargetBranch =
                    CreateMergeRequestOptions.TargetBranch pull\<rparr>])) \<and>
     (ListMergeRequestsCall (listOptions pull) \<in> set calls \<longleftrightarrow>
        (\<exists>e. snd (CreateMergeRequest c (tr @ [PushLimiterTick, GithubLimiterTick])
                    (owner @ ''/'' @ name) pull) = Some e \<and>
             Contains (Error e) ''merge request already exists''))"
  unfolding findOrCreateGitlabMR_trace
  by (auto split: option.splits prod.splits list.splits)

theorem findOrCreateGitlabMR_permits_witness:
  "snd (findOrCreateGitlabMR
          (constClient (None, Some conflict) ([exMR\<lparr>MergeRequest.Title := ''Old title''\<rparr>], None)
             (Some exMR, None) ([], None))
          ''o'' ''r'' exPull []) =
     PushLimiterTick # throttled
       [CreateMergeRequestCall ''o/r'' exPull, ListMergeRequestsCall (listOptions exPull),
        UpdateMergeRequestCall ''o/r'' 7 \<lparr>UpdateMergeRequestOptions.TargetBranch = Some ''master''\<rparr>] \<and>
   snd (findOrCreateGitlabMR
          (constClient (None, Some conflict) ([exMR], None) (Some exMR, None) ([], None))
          ''o'' ''r'' exPull []) =
     PushLimiterTick # throttled
       [CreateMergeRequestCall ''o/r'' exPull, ListMergeRequestsCall (listOptions exPull)] \<and>
   snd (findOrCreateGitlabMR
          (constClient (Some exMR, None) ([], None) (None, None) ([], None))
          ''o'' ''r'' exPull []) =
     PushLimiterTick # throttled [CreateMergeRequestCall ''o/r'' exPull]"
  using
    findOrCreateGitlabMR_permits [of
      "constClient (None, Some conflict) ([exMR\<lparr>MergeRequest.Title := ''Old title''\<rparr>], None)
         (Some exMR, None) ([], None)" "''o''" "''r''" exPull "[]"]
    findOrCreateGitlabMR_permits [of
      "constClient (None, Some conflict) ([exMR], None) (Some exMR, None) ([], None)"
      "''o''" "''r''" exPull "[]"]
    findOrCreateGitlabMR_permits [of
      "constClient (Some exMR, None) ([], None) (None, None) ([], None)"
      "''o''" "''r''" exPull "[]"]
  by (simp add: findOrCreateGitlabMR_trace constClient_def conflict_def exMR_def exPull_def)

section \<open>Properties of \<open>GitlabPush\<close>\<close>

text \<open>
  Once both \<open>git\<close> commands have succeeded, the first five events of \<open>GitlabPush\<close> are the
  two commands, the two permits and the create call, and the create call asks for
  \<open>mrOptions input\<close>: the title and the description it carries are those of \<open>titleAndBody\<close>.
\<close>

lemma findOrCreateGitlabMR_trace_prefix:
  "\<exists>rest. snd (findOrCreateGitlabMR c owner name pull tr) =
     tr @ [PushLimiterTick, GithubLimiterTick, CreateMergeRequestCall (owner @ ''/'' @ name) pull]
        @ rest"
  by (simp add: findOrCreateGitlabMR_trace throttled_def)

lemma GitlabPush_snd:
  "snd (GitlabPush sys input tr) =
    (let dir = PlanDir input;
         t1 = tr @ [Exec gitLogCmd dir];
         t2 = t1 @ [Exec (gitPushCmd input) dir];
         c = NewClient sys (Getenv sys ''GITLAB_API_TOKEN'') (Getenv sys ''GITLAB_URL'');
         mr = findOrCreateGitlabMR c (RepoOwner input) (RepoName input) (mrOptions input) t2
     in if snd (CombinedOutput sys tr gitLogCmd dir) \<noteq> None then t1
        else if snd (CombinedOutput sys t1 (gitPushCmd input) dir) \<noteq> None then t2
        else (case fst mr of
                Inl p \<Rightarrow> snd mr
              | Inr res \<Rightarrow>
                  (case snd res of
                     Some e \<Rightarrow> snd mr
                   | None \<Rightarrow>
                       (case fst res of
                          None \<Rightarrow> snd mr
                        | Some pr \<Rightarrow>
                            snd mr @ [ListProjectPipelinesCall (RepoOwner input @ ''/'' @ RepoName input)
                                        \<lparr>SHA = Some (MergeRequest.SHA pr)\<rparr>]))))"
  by (simp add: GitlabPush_def Let_def gitLogCmd_def gitPushCmd_def mrOptions_def
      GetPipelineStatus_def split: prod.splits sum.splits option.splits)

lemma GitlabPush_create_call:
  assumes "snd (CombinedOutput sys tr gitLogCmd (PlanDir input)) = None"
    and "snd (CombinedOutput sys (tr @ [Exec gitLogCmd (PlanDir input)]) (gitPushCmd input)
               (PlanDir input)) = None"
  shows "take 5 (drop (length tr) (snd (GitlabPush sys input tr))) =
           [Exec gitLogCmd (PlanDir input), Exec (gitPushCmd input) (PlanDir input),
            PushLimiterTick, GithubLimiterTick,
            CreateMergeRequestCall (RepoOwner input @ ''/'' @ RepoName input) (mrOptions input)]"
proof -
  let ?c = "NewClient sys (Getenv sys ''GITLAB_API_TOKEN'') (Getenv sys ''GITLAB_URL'')"
  let ?t2 = "tr @ [Exec gitLogCmd (PlanDir input), Exec (gitPushCmd input) (PlanDir input)]"
  obtain rest where
    "snd (findOrCreateGitlabMR ?c (RepoOwner input) (RepoName input) (mrOptions input) ?t2) =
       ?t2 @ [PushLimiterTick, GithubLimiterTick,
              CreateMergeRequestCall (RepoOwner input @ ''/'' @ RepoName input) (mrOptions input)] @ rest"
    using findOrCreateGitlabMR_trace_prefix by blast
  with assms show ?thesis
    by (simp add: GitlabPush_snd Let_def split: sum.splits option.splits)
qed

text \<open>
  Claim C5. With an empty \<open>PRBody\<close>, a commit message that reads \<open>a\<close>, newline, \<open>b\<close>, where
  \<open>a\<close> has no newline, yields the title \<open>a\<close> (the text before the first newline) and the
  description \<open>b\<close> (the text after it); a commit message without a newline is the title as
  a whole.
\<close>

theorem titleAndBody_first_newline:
  "(CommitMessage input = a @ CHR 0x0A # b \<and> CHR 0x0A \<notin> set a \<and> PRBody input = '''' \<longrightarrow>
      titleAndBody input = (a, b)) \<and>
   (CHR 0x0A \<notin> set (CommitMessage input) \<longrightarrow> fst (titleAndBody input) = CommitMessage input)"
  by (simp add: titleAndBody_def SplitN_2 IndexByte_first IndexByte_None Let_def)

theorem titleAndBody_first_newline_witness:
  "titleAndBody exInput = (''Fix bug'', ''\<newline>Details here'') \<and>
   fst (titleAndBody (exInput\<lparr>CommitMessage := ''Fix bug''\<rparr>)) = ''Fix bug''"
  using titleAndBody_first_newline [of exInput "''Fix bug''" "''\<newline>Details here''"]
    titleAndBody_first_newline [of "exInput\<lparr>CommitMessage := ''Fix bug''\<rparr>"]
  by (simp add: exInput_def)

text \<open>
  Claim C7, as stated, fails: for the commit message "Fix bug", newline, newline, "Details
  here" and an empty \<open>PRBody\<close> the derived description is not "Details here".
\<close>

theorem titleAndBody_example_counterexample:
  "\<not> (titleAndBody
        \<lparr>PlanDir = ''/tmp/plan'', BranchName = ''fix-1'',
         CommitMessage = ''Fix bug\<newline>\<newline>Details here'', PRBody = '''',
         RepoOwner = ''o'', RepoName = ''r'', PRAssignee = ''alice''\<rparr> =
        (''Fix bug'', ''Details here''))"
  by (simp add: titleAndBody_def SplitN_2)

text \<open>
  Claim C7, amended. For that input the derived title is "Fix bug" and the derived
  description is everything after the first newline: a newline followed by "Details here".
\<close>

theorem titleAndBody_example_amended:
  "titleAndBody
     \<lparr>PlanDir = ''/tmp/plan'', BranchName = ''fix-1'',
      CommitMessage = ''Fix bug\<newline>\<newline>Details here'', PRBody = '''',
      RepoOwner = ''o'', RepoName = ''r'', PRAssignee = ''alice''\<rparr> =
     (''Fix bug'', ''\<newline>Details here'')"
  by (simp add: titleAndBody_def SplitN_2)

text \<open>
  Claim C6 asks that a non-empty \<open>PRBody\<close> be the description of the merge request. The
  code does not do so: with the body "Body from the body file", both for a commit message
  of one line and for one with a newline, the create call carries the empty description.
\<close>

theorem GitlabPush_drops_PRBody:
  "snd (GitlabPush (constSystem (''abc123'', None) ('''', None)
          (constClient (Some exMR, None) ([], None) (None, None) ([], None)))
        (exInput\<lparr>CommitMessage := ''Fix bug'', PRBody := ''Body from the body file''\<rparr>) []) =
     [Exec gitLogCmd ''/tmp/plan'',
      Exec \<lparr>Path = ''git'', Args = [''push'', ''-f'', ''origin'', ''HEAD:fix-1'']\<rparr> ''/tmp/plan'',
      PushLimiterTick, GithubLimiterTick,
      CreateMergeRequestCall ''o/r''
        \<lparr>CreateMergeRequestOptions.Title = Some ''Fix bug'',
         CreateMergeRequestOptions.Description = Some '''',
         CreateMergeRequestOptions.SourceBranch = Some ''fix-1'',
         CreateMergeRequestOptions.TargetBranch = Some ''master''\<rparr>,
      ListProjectPipelinesCall ''o/r'' \<lparr>SHA = Some ''abc123''\<rparr>] \<and>
   snd (GitlabPush (constSystem (''abc123'', None) ('''', None)
          (constClient (Some exMR, None) ([], None) (None, None) ([], None)))
        (exInput\<lparr>PRBody := ''Body from the body file''\<rparr>) []) =
     [Exec gitLogCmd ''/tmp/plan'',
      Exec \<lparr>Path = ''git'', Args = [''push'', ''-f'', ''origin'', ''HEAD:fix-1'']\<rparr> ''/tmp/plan'',
      PushLimiterTick, GithubLimiterTick,
      CreateMergeRequestCall ''o/r''
        \<lparr>CreateMergeRequestOptions.Title = Some ''Fix bug'',
         CreateMergeRequestOptions.Description = Some '''',
         CreateMergeRequestOptions.SourceBranch = Some ''fix-1'',
         CreateMergeRequestOptions.TargetBranch = Some ''master''\<rparr>,
      ListProjectPipelinesCall ''o/r'' \<lparr>SHA = Some ''abc123''\<rparr>]"
  by (simp add: GitlabPush_def Let_def gitLogCmd_def constSystem_def constClient_def exInput_def
      exMR_def titleAndBody_def SplitN_2 findOrCreateGitlabMR_def GetPipelineStatus_def)

lemma GitlabPush_log_fails:
  "CombinedOutput sys tr gitLogCmd (PlanDir input) = (logOut, Some e) \<Longrightarrow>
   GitlabPush sys input tr =
     (Inr (failedOutput, Some (errorString logOut)), tr @ [Exec gitLogCmd (PlanDir input)])"
  by (simp add: GitlabPush_def Let_def gitLogCmd_def)

lemma GitlabPush_push_fails:
  "CombinedOutput sys tr gitLogCmd (PlanDir input) = (logOut, None) \<Longrightarrow>
   CombinedOutput sys (tr @ [Exec gitLogCmd (PlanDir input)]) (gitPushCmd input) (PlanDir input)
     = (pushOut, Some e) \<Longrightarrow>
   GitlabPush sys input tr =
     (Inr (failedOutput, Some (errorString pushOut)),
      tr @ [Exec gitLogCmd (PlanDir input), Exec (gitPushCmd input) (PlanDir input)])"
  by (simp add: GitlabPush_def Let_def gitLogCmd_def gitPushCmd_def)

lemma GitlabPush_pushed:
  "CombinedOutput sys tr gitLogCmd (PlanDir input) = (logOut, None) \<Longrightarrow>
   CombinedOutput sys (tr @ [Exec gitLogCmd (PlanDir input)]) (gitPushCmd input) (PlanDir input)
     = (pushOut, None) \<Longrightarrow>
   c = NewClient sys (Getenv sys ''GITLAB_API_TOKEN'') (Getenv sys ''GITLAB_URL'') \<Longrightarrow>
   findOrCreateGitlabMR c (RepoOwner input) (RepoName input) (mrOptions input)
     (tr @ [Exec gitLogCmd (PlanDir input), Exec (gitPushCmd input) (PlanDir input)]) = (r, t3) \<Longrightarrow>
   GitlabPush sys input tr =
     (case r of
        Inl p \<Rightarrow> (Inl p, t3)
      | Inr (pr, err) \<Rightarrow>
          if err \<noteq> None then (Inr (failedOutput, err), t3)
          else
           (case pr of
              None \<Rightarrow> (Inl NilPointerDereference, t3)
            | Some pr \<Rightarrow>
               (let ((pipelineStatus, err), t4) =
                      GetPipelineStatus c (RepoOwner input) (RepoName input)
                        \<lparr>SHA = Some (MergeRequest.SHA pr)\<rparr> t3
                in if err \<noteq> None then (Inr (failedOutput, err), t4)
                   else
                    (case Pipeline pr of
                       None \<Rightarrow> (Inl NilPointerDereference, t4)
                     | Some pipeline \<Rightarrow>
                        (Inr (\<lparr>Success = True,
                               CommitSHA = MergeRequest.SHA pr,
                               PullRequestNumber = ID pr,
                               PullRequestURL = WebURL pr,
                               PullRequestCombinedStatus = pipelineStatus,
                               PullRequestAssignee = PRAssignee input,
                               CircleCIBuildURL = Ref pipeline\<rparr>, None), t4)))))"
  by (simp add: GitlabPush_def Let_def gitLogCmd_def gitPushCmd_def mrOptions_def split_beta
      split: sum.splits option.splits)

text \<open>
  Claim C9. If \<open>git log\<close> fails, or \<open>git push\<close> fails, or the reconciler returns an error,
  or the pipeline lookup returns an error, \<open>GitlabPush\<close> returns \<open>failedOutput\<close>, whose
  \<open>Success\<close> is false and whose other fields are zero, together with an error. Whenever
  \<open>GitlabPush\<close> returns, a non-\<open>nil\<close> error comes with \<open>failedOutput\<close>, \<open>Success\<close> holds
  exactly when the error is \<open>nil\<close>, and \<open>Success\<close> holds only if all four steps succeeded.
\<close>

theorem GitlabPush_outputs:
  "let dir = PlanDir input;
       logR = CombinedOutput sys tr gitLogCmd dir;
       t1 = tr @ [Exec gitLogCmd dir];
       pushR = CombinedOutput sys t1 (gitPushCmd input) dir;
       t2 = t1 @ [Exec (gitPushCmd input) dir];
       c = NewClient sys (Getenv sys ''GITLAB_API_TOKEN'') (Getenv sys ''GITLAB_URL'');
       mr = findOrCreateGitlabMR c (RepoOwner input) (RepoName input) (mrOptions input) t2;
       status = (\<lambda>pr. fst (GetPipelineStatus c (RepoOwner input) (RepoName input)
                             \<lparr>SHA = Some (MergeRequest.SHA pr)\<rparr> (snd mr)));
       res = fst (GitlabPush sys input tr)
   in (\<forall>e. snd logR = Some e \<longrightarrow> res = Inr (failedOutput, Some (errorString (fst logR)))) \<and>
      (\<forall>e. snd logR = None \<and> snd pushR = Some e \<longrightarrow>
           res = Inr (failedOutput, Some (errorString (fst pushR)))) \<and>
      (\<forall>pr e. snd logR = None \<and> snd pushR = None \<and> fst mr = Inr (pr, Some e) \<longrightarrow>
           res = Inr (failedOutput, Some e)) \<and>
      (\<forall>pr s e. snd logR = None \<and> snd pushR = None \<and> fst mr = Inr (Some pr, None) \<and>
           status pr = (s, Some e) \<longrightarrow> res = Inr (failedOutput, Some e)) \<and>
      (\<forall>out err. res = Inr (out, err) \<longrightarrow>
           (err \<noteq> None \<longrightarrow> out = failedOutput) \<and>
           (Success out \<longleftrightarrow> err = None) \<and>
           (Success out \<longrightarrow>
              snd logR = None \<and> snd pushR = None \<and>
              (\<exists>pr. fst mr = Inr (Some pr, None) \<and> snd (status pr) = None)))"
proof -
  let ?dir = "PlanDir input"
  let ?c = "NewClient sys (Getenv sys ''GITLAB_API_TOKEN'') (Getenv sys ''GITLAB_URL'')"
  let ?t1 = "tr @ [Exec gitLogCmd ?dir]"
  let ?t2 = "tr @ [Exec gitLogCmd ?dir, Exec (gitPushCmd input) ?dir]"
  obtain logOut logErr where lg: "CombinedOutput sys tr gitLogCmd ?dir = (logOut, logErr)"
    by (cases "CombinedOutput sys tr gitLogCmd ?dir")
  obtain pushOut pushErr where
    ps: "CombinedOutput sys ?t1 (gitPushCmd input) ?dir = (pushOut, pushErr)"
    by (cases "CombinedOutput sys ?t1 (gitPushCmd input) ?dir")
  obtain r t3 where
    mr: "findOrCreateGitlabMR ?c (RepoOwner input) (RepoName input) (mrOptions input) ?t2 = (r, t3)"
    by (cases "findOrCreateGitlabMR ?c (RepoOwner input) (RepoName input) (mrOptions input) ?t2")
  show ?thesis
  proof (cases logErr)
    case (Some e)
    with lg show ?thesis
      by (simp add: GitlabPush_log_fails Let_def failedOutput_def)
  next
    case None
    note lg' = lg [unfolded None]
    show ?thesis
    proof (cases pushErr)
      case (Some e)
      with lg' ps show ?thesis
        by (simp add: GitlabPush_push_fails Let_def failedOutput_def)
    next
      case None
      note ps' = ps [unfolded None]
      have F: "failedOutput \<noteq> x" if "Success x" for x
        using that by (auto simp add: failedOutput_def)
      show ?thesis
        using lg' ps' mr F
        by (auto simp add: GitlabPush_pushed [OF lg' ps' refl mr] Let_def split_beta
            split: sum.splits option.splits)
    qed
  qed
qed

theorem GitlabPush_outputs_witness:
  "fst (GitlabPush
          (constSystem (''fatal: not a git repository'', Some (ExternalError 128 ''exit status 128''))
             ('''', None) (constClient (Some exMR, None) ([], None) (None, None) ([], None)))
          exInput []) =
     Inr (failedOutput, Some (errorString ''fatal: not a git repository'')) \<and>
   fst (GitlabPush
          (constSystem (''abc123'', None) (''remote: rejected'', Some (ExternalError 1 ''exit status 1''))
             (constClient (Some exMR, None) ([], None) (None, None) ([], None)))
          exInput []) =
     Inr (failedOutput, Some (errorString ''remote: rejected'')) \<and>
   fst (GitlabPush
          (constSystem (''abc123'', None) ('''', None)
             (constClient (None, Some (ExternalError 403 ''403 Forbidden'')) ([], None) (None, None)
                ([], None)))
          exInput []) =
     Inr (failedOutput, Some (ExternalError 403 ''403 Forbidden'')) \<and>
   fst (GitlabPush
          (constSystem (''abc123'', None) ('''', None)
             (constClient (Some exMR, None) ([], None) (None, None)
                ([], Some (ExternalError 500 ''500 Internal Server Error''))))
          exInput []) =
     Inr (failedOutput, Some (errorString ''unexpected: cannot get pipeline status'')) \<and>
   fst (GitlabPush
          (constSystem (''abc123'', None) ('''', None)
             (constClient (Some exMR, None) ([], None) (None, None)
                ([\<lparr>Ref = ''fix-1'', Status = ''running''\<rparr>], None)))
          exInput []) =
     Inr (\<lparr>Success = True, CommitSHA = ''abc123'', PullRequestNumber = 7,
           PullRequestURL = ''https://gitlab.example/o/r/merge_requests/7'',
           PullRequestCombinedStatus = ''running'', PullRequestAssignee = ''alice'',
           CircleCIBuildURL = ''fix-1''\<rparr>, None)"
  using
    GitlabPush_outputs [of exInput "constSystem (''fatal: not a git repository'',
        Some (ExternalError 128 ''exit status 128''))
        ('''', None) (constClient (Some exMR, None) ([], None) (None, None) ([], None))" "[]"]
    GitlabPush_outputs [of exInput "constSystem (''abc123'', None)
        (''remote: rejected'', Some (ExternalError 1 ''exit status 1''))
        (constClient (Some exMR, None) ([], None) (None, None) ([], None))" "[]"]
    GitlabPush_outputs [of exInput "constSystem (''abc123'', None) ('''', None)
        (constClient (None, Some (ExternalError 403 ''403 Forbidden'')) ([], None) (None, None)
           ([], None))" "[]"]
    GitlabPush_outputs [of exInput "constSystem (''abc123'', None) ('''', None)
        (constClient (Some exMR, None) ([], None) (None, None)
           ([], Some (ExternalError 500 ''500 Internal Server Error'')))" "[]"]
    GitlabPush_outputs [of exInput "constSystem (''abc123'', None) ('''', None)
        (constClient (Some exMR, None) ([], None) (None, None)
           ([\<lparr>Ref = ''fix-1'', Status = ''running''\<rparr>], None))" "[]"]
  by (simp add: GitlabPush_def Let_def constSystem_def constClient_def exInput_def exMR_def
      titleAndBody_def SplitN_2 findOrCreateGitlabMR_def GetPipelineStatus_def)

end
